theory Spec2Isabelle
  imports Complex_Main "HOL-Library.Word"
begin

section \<open>The bar decoder (read_day_file)\<close>

text \<open>
  The decoder of Kline2.py reads a whole file into a byte buffer and unpacks one record
  of 32 bytes after the other with the format IIIIIfII. The model starts at the buffer:
  opening and reading the file are outside it. Two things the source takes from its
  platform and its libraries are parameters of the model:
  \<^item> the byte order of the format (it has no prefix, so it is the native one);
  \<^item> the date parser, datetime.strptime with the format %Y%m%d, a function from the
    decimal string of the first field to a date, or None where the library raises
    ValueError.
  Prices are Python floats in the source (an integer divided by 100). A bar of the
  model keeps the exact quotient as a rational number; the double that the program
  stores for it is round_double of the quotient, applied where the ledger reads a price.
\<close>

type_synonym byte = "8 word"

datatype byteorder = LittleEndian | BigEndian

datatype date = Date (year: nat) (month: nat) (day: nat)

record bar =
  Date_of :: date
  Open :: rat
  High :: rat
  Low :: rat
  Close :: rat
  Volume :: nat

datatype field = UInt nat | Float32 "byte list"

datatype cause = Struct_error | Unconverted_date

datatype error = ValueError cause

text \<open>Python's slice buffer[lo:hi], for 0 <= lo <= hi.\<close>

definition slice :: "'a list \<Rightarrow> nat \<Rightarrow> nat \<Rightarrow> 'a list" where
  "slice xs lo hi = take (hi - lo) (drop lo xs)"

fun le_nat :: "byte list \<Rightarrow> nat" where
  "le_nat [] = 0"
| "le_nat (b # bs) = unat b + 256 * le_nat bs"

definition unpack_I :: "byteorder \<Rightarrow> byte list \<Rightarrow> nat" where
  "unpack_I ord bs = (case ord of LittleEndian \<Rightarrow> le_nat bs | BigEndian \<Rightarrow> le_nat (rev bs))"

text \<open>
  struct.calcsize and struct.unpack for the two format codes the source uses: I is an
  unsigned integer of 4 bytes, f a float of 4 bytes (kept as its bytes: the source never
  reads it). All fields are 4 bytes wide, so native alignment adds no padding.
\<close>

fun calcsize :: "string \<Rightarrow> nat option" where
  "calcsize [] = Some 0"
| "calcsize (c # cs) =
     (if c = CHR ''I'' \<or> c = CHR ''f''
      then (case calcsize cs of None \<Rightarrow> None | Some n \<Rightarrow> Some (4 + n))
      else None)"

fun unpack_fields :: "byteorder \<Rightarrow> string \<Rightarrow> byte list \<Rightarrow> field list" where
  "unpack_fields ord [] bs = []"
| "unpack_fields ord (c # cs) bs =
     (if c = CHR ''I'' then UInt (unpack_I ord (take 4 bs)) else Float32 (take 4 bs))
       # unpack_fields ord cs (drop 4 bs)"

definition struct_unpack :: "byteorder \<Rightarrow> string \<Rightarrow> byte list \<Rightarrow> cause + field list" where
  "struct_unpack ord fmt bs =
     (if calcsize fmt = Some (length bs) then Inr (unpack_fields ord fmt bs)
      else Inl Struct_error)"

text \<open>The string of a natural number in decimal, as an f-string prints it.\<close>

definition digit_char :: "nat \<Rightarrow> char" where
  "digit_char d = ''0123456789'' ! d"

fun str_nat :: "nat \<Rightarrow> string" where
  "str_nat n = (if n < 10 then [digit_char n] else str_nat (n div 10) @ [digit_char (n mod 10)])"

declare str_nat.simps [simp del]

text \<open>
  One pass of the loop body: unpack the record, parse the date, build the row
  [date, raw[1]/100, raw[2]/100, raw[3]/100, raw[4]/100, raw[6]].
\<close>

definition decode_record ::
  "(string \<Rightarrow> date option) \<Rightarrow> byteorder \<Rightarrow> byte list \<Rightarrow> cause + bar" where
  "decode_record strptime ord rec =
     (case struct_unpack ord ''IIIIIfII'' rec of
        Inl e \<Rightarrow> Inl e
      | Inr raw_data \<Rightarrow>
          (case raw_data of
             [UInt r0, UInt r1, UInt r2, UInt r3, UInt r4, Float32 r5, UInt r6, UInt r7] \<Rightarrow>
               (case strptime (str_nat r0) of
                  None \<Rightarrow> Inl Unconverted_date
                | Some d \<Rightarrow>
                    Inr \<lparr>Date_of = d,
                         Open = of_nat r1 / 100,
                         High = of_nat r2 / 100,
                         Low = of_nat r3 / 100,
                         Close = of_nat r4 / 100,
                         Volume = r6\<rparr>)
           | _ \<Rightarrow> Inl Struct_error))"

text \<open>The loop over range(num_records), appending to data; an exception ends it.\<close>

fun read_records ::
  "(string \<Rightarrow> date option) \<Rightarrow> byteorder \<Rightarrow> byte list \<Rightarrow> nat list \<Rightarrow> bar list \<Rightarrow> cause + bar list" where
  "read_records strptime ord buffer [] data = Inr data"
| "read_records strptime ord buffer (i # is) data =
     (case decode_record strptime ord (slice buffer (i * 32) ((i + 1) * 32)) of
        Inl e \<Rightarrow> Inl e
      | Inr b \<Rightarrow> read_records strptime ord buffer is (data @ [b]))"

text \<open>
  read_day_file on the buffer it has read. Every exception of the body is caught and
  raised again as a ValueError. The data frame is the list of its rows in order.
\<close>

definition read_day_file ::
  "(string \<Rightarrow> date option) \<Rightarrow> byteorder \<Rightarrow> byte list \<Rightarrow> error + bar list" where
  "read_day_file strptime ord buffer =
     (let num_records = length buffer div 32 in
      case read_records strptime ord buffer [0..<num_records] [] of
        Inl e \<Rightarrow> Inl (ValueError e)
      | Inr data \<Rightarrow> Inr data)"

text \<open>
  Notation for the statements below: the unsigned integer and the bar that the layout
  places at a byte offset of a buffer.
\<close>

definition uint_at :: "byteorder \<Rightarrow> byte list \<Rightarrow> nat \<Rightarrow> nat" where
  "uint_at ord buffer k = unpack_I ord (take 4 (drop k buffer))"

definition bar_at :: "(string \<Rightarrow> date option) \<Rightarrow> byteorder \<Rightarrow> byte list \<Rightarrow> nat \<Rightarrow> bar" where
  "bar_at strptime ord buffer k =
     \<lparr>Date_of = the (strptime (str_nat (uint_at ord buffer k))),
      Open = of_nat (uint_at ord buffer (k + 4)) / 100,
      High = of_nat (uint_at ord buffer (k + 8)) / 100,
      Low = of_nat (uint_at ord buffer (k + 12)) / 100,
      Close = of_nat (uint_at ord buffer (k + 16)) / 100,
      Volume = uint_at ord buffer (k + 24)\<rparr>"

definition date_ok :: "(string \<Rightarrow> date option) \<Rightarrow> byteorder \<Rightarrow> byte list \<Rightarrow> nat \<Rightarrow> bool" where
  "date_ok strptime ord buffer k = (strptime (str_nat (uint_at ord buffer k)) \<noteq> None)"

text \<open>
  datetime.strptime for the format %Y%m%d, used where the decoder is evaluated on a
  concrete buffer. The library matches the string against a regular expression: four
  digits for the year, then for the month the first of "1[0-2]", "0[1-9]", "[1-9]"
  and for the day the first of "3[01]", "[12]\d", "0[1-9]", "[1-9]", " [1-9]" with
  which the match succeeds. Text left over after the match, or a date that the
  calendar does not have, raises ValueError. So a string of seven or six digits can
  be read as a date too.
\<close>

definition digit_val :: "char \<Rightarrow> nat option" where
  "digit_val c =
     (let n = (of_char c :: nat) in if 48 \<le> n \<and> n \<le> 57 then Some (n - 48) else None)"

fun digits_val :: "string \<Rightarrow> nat \<Rightarrow> nat option" where
  "digits_val [] acc = Some acc"
| "digits_val (c # cs) acc =
     (case digit_val c of None \<Rightarrow> None | Some d \<Rightarrow> digits_val cs (10 * acc + d))"

definition leap_year :: "nat \<Rightarrow> bool" where
  "leap_year y = (y mod 4 = 0 \<and> (y mod 100 \<noteq> 0 \<or> y mod 400 = 0))"

definition days_in_month :: "nat \<Rightarrow> nat \<Rightarrow> nat" where
  "days_in_month y m =
     (if m = 2 then (if leap_year y then 29 else 28)
      else if m = 4 \<or> m = 6 \<or> m = 9 \<or> m = 11 then 30 else 31)"

definition char_val :: "char \<Rightarrow> nat" where
  "char_val c = of_char c - 48"

text \<open>
  The ways the month and the day can match at the head of a string, in the order in
  which the regular expression tries them, each with the text that follows the match.
\<close>

definition month_matches :: "string \<Rightarrow> (nat \<times> string) list" where
  "month_matches r =
     (case r of
        c1 # c2 # rest \<Rightarrow>
          (if c1 = CHR ''1'' \<and> c2 \<in> set ''012'' then [(10 + char_val c2, rest)] else [])
          @ (if c1 = CHR ''0'' \<and> c2 \<in> set ''123456789'' then [(char_val c2, rest)] else [])
      | _ \<Rightarrow> [])
     @ (case r of
          c1 # rest \<Rightarrow> (if c1 \<in> set ''123456789'' then [(char_val c1, rest)] else [])
        | [] \<Rightarrow> [])"

definition day_matches :: "string \<Rightarrow> (nat \<times> string) list" where
  "day_matches r =
     (case r of
        c1 # c2 # rest \<Rightarrow>
          (if c1 = CHR ''3'' \<and> c2 \<in> set ''01'' then [(30 + char_val c2, rest)] else [])
          @ (if c1 \<in> set ''12'' \<and> c2 \<in> set ''0123456789''
             then [(10 * char_val c1 + char_val c2, rest)] else [])
          @ (if c1 = CHR ''0'' \<and> c2 \<in> set ''123456789'' then [(char_val c2, rest)] else [])
      | _ \<Rightarrow> [])
     @ (case r of
          c1 # rest \<Rightarrow> (if c1 \<in> set ''123456789'' then [(char_val c1, rest)] else [])
        | [] \<Rightarrow> [])
     @ (case r of
          c1 # c2 # rest \<Rightarrow>
            (if c1 = CHR '' '' \<and> c2 \<in> set ''123456789'' then [(char_val c2, rest)] else [])
        | _ \<Rightarrow> [])"

definition ymd_reader :: "string \<Rightarrow> date option" where
  "ymd_reader s =
     (if length s < 4 then None
      else case digits_val (take 4 s) 0 of
        None \<Rightarrow> None
      | Some y \<Rightarrow>
          (case concat (map (\<lambda>(m, r1). map (\<lambda>(d, r2). (m, d, r2)) (day_matches r1))
                         (month_matches (drop 4 s))) of
             [] \<Rightarrow> None
           | (m, d, rest) # _ \<Rightarrow>
               (if rest = [] \<and> 1 \<le> y \<and> d \<le> days_in_month y m then Some (Date y m d)
                else None)))"


section \<open>Floating-point numbers\<close>

text \<open>
  The ledger computes in doubles. The decoder's int / 100 is a Python float; the row of
  the data frame that _execute_trade reads holds it as a float64 of the array library
  (numpy), and every result of an operation with it is again such a float64. A double
  is modelled by its exact value, or one of the infinities, or NaN. The sign of a zero
  is not kept: no operation of the ledger depends on it (the only divisor is a close,
  an unsigned integer over 100, never a negative zero).

  round_double takes an exact value to the nearest double, ties to even: 53 significant
  bits, the least exponent -1022 (gradual underflow below it), an infinity from 2^1024
  on. bit_length is Python's int.bit_length.
\<close>

datatype fp = Fin rat | PInf | NInf | NaN

fun bit_length :: "nat \<Rightarrow> nat" where
  "bit_length n = (if n = 0 then 0 else Suc (bit_length (n div 2)))"

declare bit_length.simps [simp del]

definition floor_log2 :: "rat \<Rightarrow> int" where
  "floor_log2 x =
     (if 1 \<le> x then int (bit_length (nat \<lfloor>x\<rfloor>)) - 1
      else - int (bit_length (nat \<lceil>1 / x\<rceil> - 1)))"

definition pow2 :: "int \<Rightarrow> rat" where
  "pow2 e = (if 0 \<le> e then 2 ^ nat e else 1 / 2 ^ nat (- e))"

definition round_half_even :: "rat \<Rightarrow> int" where
  "round_half_even q =
     (let f = \<lfloor>q\<rfloor>; d = q - of_int f in
      if d < 1 / 2 then f else if 1 / 2 < d then f + 1 else if even f then f else f + 1)"

definition round_double :: "rat \<Rightarrow> fp" where
  "round_double x =
     (if x = 0 then Fin 0
      else
        let e = max (floor_log2 \<bar>x\<bar>) (- 1022);
            ulp = pow2 (e - 52);
            y = of_int (round_half_even (x / ulp)) * ulp
        in if pow2 1024 \<le> \<bar>y\<bar> then (if 0 < x then PInf else NInf) else Fin y)"

text \<open>
  The arithmetic of doubles (IEEE 754, round to nearest): the exact result of finite
  operands is rounded; NaN spreads; infinity minus infinity and infinity times zero are
  NaN. A comparison with NaN is false.
\<close>

fun fp_neg :: "fp \<Rightarrow> fp" where
  "fp_neg (Fin x) = Fin (- x)"
| "fp_neg PInf = NInf"
| "fp_neg NInf = PInf"
| "fp_neg NaN = NaN"

fun fp_add :: "fp \<Rightarrow> fp \<Rightarrow> fp" where
  "fp_add NaN b = NaN"
| "fp_add a NaN = NaN"
| "fp_add (Fin x) (Fin y) = round_double (x + y)"
| "fp_add (Fin x) b = b"
| "fp_add a (Fin y) = a"
| "fp_add PInf PInf = PInf"
| "fp_add NInf NInf = NInf"
| "fp_add PInf NInf = NaN"
| "fp_add NInf PInf = NaN"

definition fp_sub :: "fp \<Rightarrow> fp \<Rightarrow> fp" where
  "fp_sub a b = fp_add a (fp_neg b)"

fun fp_sign :: "fp \<Rightarrow> int" where
  "fp_sign (Fin x) = (if x < 0 then - 1 else if x = 0 then 0 else 1)"
| "fp_sign PInf = 1"
| "fp_sign NInf = - 1"
| "fp_sign NaN = 0"

definition fp_signed_inf :: "int \<Rightarrow> fp" where
  "fp_signed_inf s = (if 0 < s then PInf else if s < 0 then NInf else NaN)"

fun fp_mul :: "fp \<Rightarrow> fp \<Rightarrow> fp" where
  "fp_mul NaN b = NaN"
| "fp_mul a NaN = NaN"
| "fp_mul (Fin x) (Fin y) = round_double (x * y)"
| "fp_mul a b = fp_signed_inf (fp_sign a * fp_sign b)"

text \<open>
  The division of the array library does not raise: a finite non-zero value over zero
  is an infinity, zero over zero is NaN (a warning is printed, nothing more).
\<close>

fun fp_div :: "fp \<Rightarrow> fp \<Rightarrow> fp" where
  "fp_div NaN b = NaN"
| "fp_div a NaN = NaN"
| "fp_div (Fin x) (Fin y) =
     (if y = 0 then fp_signed_inf (fp_sign (Fin x)) else round_double (x / y))"
| "fp_div (Fin x) b = Fin 0"
| "fp_div a (Fin y) = fp_signed_inf (fp_sign a * (if y < 0 then - 1 else 1))"
| "fp_div a b = NaN"

fun fp_less :: "fp \<Rightarrow> fp \<Rightarrow> bool" where
  "fp_less NaN b = False"
| "fp_less a NaN = False"
| "fp_less (Fin x) (Fin y) = (x < y)"
| "fp_less NInf b = (b \<noteq> NInf)"
| "fp_less PInf b = False"
| "fp_less (Fin x) b = (b = PInf)"

definition fp_eq :: "fp \<Rightarrow> fp \<Rightarrow> bool" where
  "fp_eq a b = (a \<noteq> NaN \<and> a = b)"

definition fp_le :: "fp \<Rightarrow> fp \<Rightarrow> bool" where
  "fp_le a b = (fp_less a b \<or> fp_eq a b)"

fun fp_floor :: "fp \<Rightarrow> fp" where
  "fp_floor (Fin x) = Fin (of_int \<lfloor>x\<rfloor>)"
| "fp_floor a = a"

text \<open>
  The floor division of two float64 (the operator // of the source), as the array
  library computes it. For a divisor of 0 it is the plain division above. Otherwise,
  with mod the exact remainder of the C function fmod (it has the sign of the dividend),
  the quotient is (a - mod) / b, less 1 when mod is not 0 and its sign differs from the
  divisor's, and it is snapped to the nearest integer: its floor, plus 1 when the
  quotient exceeds the floor by more than 0.5. An infinite or NaN dividend gives NaN.
\<close>

definition fmod :: "rat \<Rightarrow> rat \<Rightarrow> rat" where
  "fmod x y = x - of_int (if 0 \<le> x / y then \<lfloor>x / y\<rfloor> else \<lceil>x / y\<rceil>) * y"

definition snap :: "fp \<Rightarrow> fp" where
  "snap div' =
     (if div' = Fin 0 then Fin 0
      else
        let floordiv = fp_floor div' in
        if fp_less (Fin (1 / 2)) (fp_sub div' floordiv) then fp_add floordiv (Fin 1)
        else floordiv)"

fun fp_floor_divide :: "fp \<Rightarrow> fp \<Rightarrow> fp" where
  "fp_floor_divide a (Fin y) =
     (if y = 0 then fp_div a (Fin y)
      else case a of
        Fin x \<Rightarrow>
          let mod' = fmod x y;
              div' = fp_div (round_double (x - mod')) (Fin y);
              div'' = (if mod' \<noteq> 0 \<and> ((y < 0) \<noteq> (mod' < 0)) then fp_sub div' (Fin 1)
                       else div')
          in snap div''
      | _ \<Rightarrow> NaN)"
| "fp_floor_divide a NaN = NaN"
| "fp_floor_divide (Fin x) PInf = (if x < 0 then Fin (- 1) else Fin 0)"
| "fp_floor_divide (Fin x) NInf = (if 0 < x then Fin (- 1) else Fin 0)"
| "fp_floor_divide a b = NaN"


section \<open>The trading ledger (TradingSimulator)\<close>

text \<open>
  The simulator object holds the session and the ledger in its attributes; the model
  is a record of those attributes, passed in and returned. The widgets, the chart and
  the message boxes are left out: they read the ledger and never write it. Cash, the
  share count, the equity values and the logged prices are doubles. INITIAL_CAPITAL and
  the first share count 0 are Python ints in the source; every operation that meets
  them converts them to the same doubles, and that is how the model holds them.

  A bar of the session carries the exact quotient of the decoder; the price that
  _execute_trade reads from it is the double the program holds for that quotient,
  round_double of it.
\<close>

datatype action = Buy | Sell | Hold

record trade =
  t_date :: date
  t_action :: action
  t_price :: fp
  t_shares :: fp
  t_cash :: fp

record ledger =
  current_data :: "bar list"
  current_index :: nat
  cash :: fp
  position :: fp
  trade_log :: "trade list"
  equity_curve :: "fp list"
  buy_signals :: "date \<rightharpoonup> fp"
  sell_signals :: "date \<rightharpoonup> fp"

definition INITIAL_CAPITAL :: fp where
  "INITIAL_CAPITAL = Fin 100000"

definition SIMULATION_DAYS :: nat where
  "SIMULATION_DAYS = 120"

text \<open>The attributes as __init__ sets them, before any session is loaded.\<close>

definition new_simulator :: ledger where
  "new_simulator =
     \<lparr>current_data = [], current_index = 64, cash = INITIAL_CAPITAL, position = Fin 0,
      trade_log = [], equity_curve = [INITIAL_CAPITAL],
      buy_signals = Map.empty, sell_signals = Map.empty\<rparr>"

definition reset_trading_state :: "ledger \<Rightarrow> ledger" where
  "reset_trading_state s =
     s\<lparr>current_index := 64,
       cash := INITIAL_CAPITAL,
       position := Fin 0,
       trade_log := [],
       equity_curve := [INITIAL_CAPITAL],
       buy_signals := Map.empty,
       sell_signals := Map.empty\<rparr>"

text \<open>
  The part of _start_simulation that builds the session: the decoded bars must number
  at least SIMULATION_DAYS + 65, and the session is the window of that length at
  start_idx (which the source draws at random from 0 .. len - required_days).
\<close>

definition start_simulation :: "ledger \<Rightarrow> bar list \<Rightarrow> nat \<Rightarrow> ledger option" where
  "start_simulation s decoded start_idx =
     (let required_days = SIMULATION_DAYS + 65 in
      if length decoded < required_days then None
      else Some (reset_trading_state
                   (s\<lparr>current_data := slice decoded start_idx (start_idx + required_days)\<rparr>)))"

text \<open>
  What a call of _execute_trade leaves behind. A call that ran to its end is Accepted.
  A call that stopped early is Rejected, with the ledger as it stood at that moment:
  End_of_data is the return after the notice that the data has ended, the other three
  are the ValueErrors raised in the body and caught by its handler.

  The buy branch has no test of the price. For a close of 0 the floor division of the
  doubles does not raise: it yields an infinity (NaN when cash is 0 or NaN), the test
  max_shares < 1 is false, and the branch goes on.
\<close>

datatype notice = End_of_data | Already_holding | Insufficient_cash | No_position

datatype result = Accepted ledger | Rejected notice ledger

text \<open>The tail of the try block: the log entry, the equity value, the cursor.\<close>

definition record_trade :: "ledger \<Rightarrow> action \<Rightarrow> date \<Rightarrow> fp \<Rightarrow> ledger" where
  "record_trade s action date price =
     s\<lparr>trade_log := trade_log s @
          [\<lparr>t_date = date, t_action = action, t_price = price,
            t_shares = (if action = Buy then position s else Fin 0),
            t_cash = cash s\<rparr>],
       equity_curve := equity_curve s @ [fp_add (cash s) (fp_mul (position s) price)],
       current_index := current_index s + 1\<rparr>"

definition execute_trade :: "ledger \<Rightarrow> action \<Rightarrow> result" where
  "execute_trade s action =
     (if int (current_index s) \<ge> int (length (current_data s)) - 1 then Rejected End_of_data s
      else
        let current_bar = current_data s ! current_index s;
            price = round_double (Close current_bar);
            date = Date_of current_bar
        in case action of
             Buy \<Rightarrow>
               if fp_less (Fin 0) (position s) then Rejected Already_holding s
               else
                 let max_shares = fp_floor_divide (cash s) price in
                 if fp_less max_shares (Fin 1) then Rejected Insufficient_cash s
                 else Accepted (record_trade
                        (s\<lparr>position := max_shares,
                           cash := fp_sub (cash s) (fp_mul max_shares price),
                           buy_signals := (buy_signals s)(date \<mapsto> price)\<rparr>)
                        Buy date price)
           | Sell \<Rightarrow>
               if fp_eq (position s) (Fin 0) then Rejected No_position s
               else Accepted (record_trade
                      (s\<lparr>cash := fp_add (cash s) (fp_mul (position s) price),
                         position := Fin 0,
                         sell_signals := (sell_signals s)(date \<mapsto> price)\<rparr>)
                      Sell date price)
           | Hold \<Rightarrow> Accepted (record_trade s Hold date price))"

text \<open>
  A sequence of button presses. A rejected action leaves the user with the ledger of
  the rejected call.
\<close>

fun run :: "ledger \<Rightarrow> action list \<Rightarrow> ledger" where
  "run s [] = s"
| "run s (a # as) =
     (case execute_trade s a of
        Accepted s' \<Rightarrow> run s' as
      | Rejected n s' \<Rightarrow> run s' as)"


section \<open>The statistics (_show_summary)\<close>

datatype exn = IndexError | ZeroDivisionError

text \<open>
  The win-rate loop over the trade log. last_buy_price is None or a price; the test
  "and last_buy_price" is Python's truth value: None and a zero are false, every other
  double is true. The rate is the quotient of two ints, a Python float, and the int 0
  when nothing was counted.
\<close>

definition truthy :: "fp option \<Rightarrow> bool" where
  "truthy l = (case l of None \<Rightarrow> False | Some p \<Rightarrow> p \<noteq> Fin 0)"

fun win_loop :: "trade list \<Rightarrow> nat \<Rightarrow> nat \<Rightarrow> fp option \<Rightarrow> nat \<times> nat" where
  "win_loop [] win_trades total_trades last_buy_price = (win_trades, total_trades)"
| "win_loop (tr # trs) win_trades total_trades last_buy_price =
     (if t_action tr = Buy then win_loop trs win_trades total_trades (Some (t_price tr))
      else if t_action tr = Sell \<and> truthy last_buy_price then
        win_loop trs
          (case last_buy_price of
             Some b \<Rightarrow> if fp_less b (t_price tr) then win_trades + 1 else win_trades
           | None \<Rightarrow> win_trades)
          (total_trades + 1) None
      else win_loop trs win_trades total_trades last_buy_price)"

definition win_rate :: "trade list \<Rightarrow> fp" where
  "win_rate trades =
     (case win_loop trades 0 0 None of
        (win_trades, total_trades) \<Rightarrow>
          if total_trades > 0 then round_double (of_nat win_trades / of_nat total_trades)
          else Fin 0)"

text \<open>
  The drawdown loop, over a curve of exact values. The division by peak raises
  ZeroDivisionError when the peak is 0, as the division of Python's own numbers does
  (the first entry of the curve, where the peak starts, is the integer
  INITIAL_CAPITAL); indexing an empty curve raises IndexError. The theorems below meet
  a peak of 0 only at the first entry of a curve.
\<close>

fun drawdown_loop :: "rat list \<Rightarrow> rat \<Rightarrow> rat \<Rightarrow> exn + rat" where
  "drawdown_loop [] peak max_drawdown = Inr max_drawdown"
| "drawdown_loop (v # vs) peak max_drawdown =
     (let peak' = (if v > peak then v else peak) in
      if peak' = 0 then Inl ZeroDivisionError
      else
        let drawdown = (peak' - v) / peak' in
        drawdown_loop vs peak' (if drawdown > max_drawdown then drawdown else max_drawdown))"

definition max_drawdown_of :: "rat list \<Rightarrow> exn + rat" where
  "max_drawdown_of curve =
     (case curve of [] \<Rightarrow> Inl IndexError | v0 # _ \<Rightarrow> drawdown_loop curve v0 0)"


section \<open>Notions used in the statements\<close>

text \<open>
  The guard at the head of _execute_trade, and the close and the date of the bar under
  the cursor (current_bar.Close and current_bar.name in the source).
\<close>

definition at_end :: "ledger \<Rightarrow> bool" where
  "at_end s = (int (current_index s) \<ge> int (length (current_data s)) - 1)"

definition current_close :: "ledger \<Rightarrow> fp" where
  "current_close s = round_double (Close (current_data s ! current_index s))"

definition current_date :: "ledger \<Rightarrow> date" where
  "current_date s = Date_of (current_data s ! current_index s)"

text \<open>
  The win rate in the words of the specification: a buy sets a pending entry price,
  the next sell consumes it and clears it, and the pair of the two prices is a win when
  the sell price is strictly greater. The rate is the number of wins over the number of
  pairs, and 0 when there is no pair.
\<close>

fun paired_trades :: "trade list \<Rightarrow> fp option \<Rightarrow> (fp \<times> fp) list" where
  "paired_trades [] pending = []"
| "paired_trades (tr # trs) pending =
     (case t_action tr of
        Buy \<Rightarrow> paired_trades trs (Some (t_price tr))
      | Sell \<Rightarrow>
          (case pending of
             Some b \<Rightarrow> (b, t_price tr) # paired_trades trs None
           | None \<Rightarrow> paired_trades trs None)
      | Hold \<Rightarrow> paired_trades trs pending)"

definition is_win :: "fp \<times> fp \<Rightarrow> bool" where
  "is_win pair = fp_less (fst pair) (snd pair)"

definition win_rate_spec :: "trade list \<Rightarrow> rat" where
  "win_rate_spec trades =
     (let pairs = paired_trades trades None in
      if pairs = [] then 0
      else of_nat (length (filter is_win pairs)) / of_nat (length pairs))"

text \<open>
  The maximal drawdown in the words of the specification: the running peak at a point
  is the greatest value of the curve up to and including that point, the drawdown there
  is (peak - value) / peak, and the result is the greatest drawdown over all points.
\<close>

definition running_peak :: "rat list \<Rightarrow> nat \<Rightarrow> rat" where
  "running_peak curve i = Max (set (take (Suc i) curve))"

definition drawdown_at :: "rat list \<Rightarrow> nat \<Rightarrow> rat" where
  "drawdown_at curve i = (running_peak curve i - curve ! i) / running_peak curve i"

definition max_drawdown_spec :: "rat list \<Rightarrow> rat" where
  "max_drawdown_spec curve = Max (set (map (drawdown_at curve) [0..<length curve]))"


section \<open>Sample data\<close>

text \<open>
  Two records as the little-endian format packs them: 2024-01-01 with prices 10.00,
  11.00, 9.00, 333.33 and volume 10000; 2024-01-02 with prices 333.33, 340.00, 330.00,
  335.00 and volume 20000.
\<close>

definition sample_buffer :: "byte list" where
  "sample_buffer =
     [229, 214, 52, 1, 232, 3, 0, 0, 76, 4, 0, 0, 132, 3, 0, 0,
      53, 130, 0, 0, 0, 0, 192, 63, 16, 39, 0, 0, 7, 0, 0, 0,
      230, 214, 52, 1, 53, 130, 0, 0, 208, 132, 0, 0, 232, 128, 0, 0,
      220, 130, 0, 0, 0, 0, 32, 64, 32, 78, 0, 0, 0, 0, 0, 0]"

definition sample_bars :: "bar list" where
  "sample_bars =
     [\<lparr>Date_of = Date 2024 1 1, Open = 10, High = 11, Low = 9, Close = 33333 / 100, Volume = 10000\<rparr>,
      \<lparr>Date_of = Date 2024 1 2, Open = 33333 / 100, High = 340, Low = 330, Close = 335, Volume = 20000\<rparr>]"


text \<open>
  A session of 185 bars. The cursor starts at index 64, on a close of 333.33; the next
  two closes are 320 and 350. The ledgers that follow are the fresh one at the start of
  the session and the ones after a buy, then a hold, then a sell.
\<close>

definition lead_bar :: "nat \<Rightarrow> bar" where
  "lead_bar i = \<lparr>Date_of = Date 2023 (1 + i div 28) (1 + i mod 28),
                 Open = 10, High = 10, Low = 10, Close = 10, Volume = 1\<rparr>"

definition day_bar :: "nat \<Rightarrow> rat \<Rightarrow> bar" where
  "day_bar d c = \<lparr>Date_of = Date 2024 4 d, Open = c, High = c, Low = c, Close = c, Volume = 1\<rparr>"

definition tail_bar :: "nat \<Rightarrow> bar" where
  "tail_bar i = \<lparr>Date_of = Date 2025 (1 + i div 28) (1 + i mod 28),
                 Open = 12, High = 12, Low = 12, Close = 12, Volume = 1\<rparr>"

definition sample_session :: "bar list" where
  "sample_session =
     map lead_bar [0..<64] @ [day_bar 1 (33333 / 100), day_bar 2 320, day_bar 3 350]
       @ map tail_bar [0..<118]"

definition sample_start :: ledger where
  "sample_start = reset_trading_state (new_simulator\<lparr>current_data := sample_session\<rparr>)"

definition sample_bought :: ledger where
  "sample_bought =
     \<lparr>current_data = sample_session, current_index = 65, cash = Fin 1, position = Fin 300,
      trade_log = [\<lparr>t_date = Date 2024 4 1, t_action = Buy,
                    t_price = round_double (33333 / 100),
                    t_shares = Fin 300, t_cash = Fin 1\<rparr>],
      equity_curve = [Fin 100000, Fin 100000],
      buy_signals = [Date 2024 4 1 \<mapsto> round_double (33333 / 100)],
      sell_signals = Map.empty\<rparr>"

definition sample_held :: ledger where
  "sample_held =
     \<lparr>current_data = sample_session, current_index = 66, cash = Fin 1, position = Fin 300,
      trade_log = [\<lparr>t_date = Date 2024 4 1, t_action = Buy,
                    t_price = round_double (33333 / 100),
                    t_shares = Fin 300, t_cash = Fin 1\<rparr>,
                   \<lparr>t_date = Date 2024 4 2, t_action = Hold, t_price = Fin 320,
                    t_shares = Fin 0, t_cash = Fin 1\<rparr>],
      equity_curve = [Fin 100000, Fin 100000, Fin 96001],
      buy_signals = [Date 2024 4 1 \<mapsto> round_double (33333 / 100)],
      sell_signals = Map.empty\<rparr>"

definition sample_sold :: ledger where
  "sample_sold =
     \<lparr>current_data = sample_session, current_index = 67, cash = Fin 105001, position = Fin 0,
      trade_log = [\<lparr>t_date = Date 2024 4 1, t_action = Buy,
                    t_price = round_double (33333 / 100),
                    t_shares = Fin 300, t_cash = Fin 1\<rparr>,
                   \<lparr>t_date = Date 2024 4 2, t_action = Hold, t_price = Fin 320,
                    t_shares = Fin 0, t_cash = Fin 1\<rparr>,
                   \<lparr>t_date = Date 2024 4 3, t_action = Sell, t_price = Fin 350,
                    t_shares = Fin 0, t_cash = Fin 105001\<rparr>],
      equity_curve = [Fin 100000, Fin 100000, Fin 96001, Fin 105001],
      buy_signals = [Date 2024 4 1 \<mapsto> round_double (33333 / 100)],
      sell_signals = [Date 2024 4 3 \<mapsto> Fin 350]\<rparr>"

text \<open>
  A ledger whose cursor stands on the last bar of the session, a fresh ledger with 1 in
  cash, and a session that differs from the sample after the bar at index 64.
\<close>

definition sample_last :: ledger where
  "sample_last = sample_bought\<lparr>current_index := 184\<rparr>"

definition sample_poor :: ledger where
  "sample_poor = sample_start\<lparr>cash := Fin 1\<rparr>"

definition alt_session :: "bar list" where
  "alt_session = sample_session[65 := day_bar 2 1, 66 := day_bar 3 1000]"

text \<open>
  A session whose bar under the first cursor position has a close of 0 (a record whose
  close field is the integer 0), followed by closes of 5 and 6; the fresh ledger on it,
  and the ledgers after a buy and after a buy and a sell.
\<close>

definition zero_session :: "bar list" where
  "zero_session =
     map lead_bar [0..<64] @ [day_bar 1 0, day_bar 2 5, day_bar 3 6] @ map tail_bar [0..<118]"

definition zero_start :: ledger where
  "zero_start = reset_trading_state (new_simulator\<lparr>current_data := zero_session\<rparr>)"

definition zero_bought :: ledger where
  "zero_bought =
     \<lparr>current_data = zero_session, current_index = 65, cash = NaN, position = PInf,
      trade_log = [\<lparr>t_date = Date 2024 4 1, t_action = Buy, t_price = Fin 0,
                    t_shares = PInf, t_cash = NaN\<rparr>],
      equity_curve = [Fin 100000, NaN],
      buy_signals = [Date 2024 4 1 \<mapsto> Fin 0],
      sell_signals = Map.empty\<rparr>"

definition zero_sold :: ledger where
  "zero_sold =
     \<lparr>current_data = zero_session, current_index = 66, cash = NaN, position = Fin 0,
      trade_log = [\<lparr>t_date = Date 2024 4 1, t_action = Buy, t_price = Fin 0,
                    t_shares = PInf, t_cash = NaN\<rparr>,
                   \<lparr>t_date = Date 2024 4 2, t_action = Sell, t_price = Fin 5,
                    t_shares = Fin 0, t_cash = NaN\<rparr>],
      equity_curve = [Fin 100000, NaN, NaN],
      buy_signals = [Date 2024 4 1 \<mapsto> Fin 0],
      sell_signals = [Date 2024 4 2 \<mapsto> Fin 5]\<rparr>"

text \<open>An equity curve for the statistics.\<close>

definition example_curve :: "rat list" where
  "example_curve = [100000, 110000, 95000, 105000]"

text \<open>The trade log of the specification's example.\<close>

definition entry :: "action \<Rightarrow> fp \<Rightarrow> trade" where
  "entry a p = \<lparr>t_date = Date 2024 4 1, t_action = a, t_price = p, t_shares = Fin 0, t_cash = Fin 0\<rparr>"

definition example_log :: "trade list" where
  "example_log = [entry Buy (Fin 10), entry Sell (Fin 12), entry Buy (Fin 8), entry Sell (Fin 8)]"


section \<open>Properties of the decoder\<close>

lemma calcsize_fmt: "calcsize ''IIIIIfII'' = Some 32"
  by simp

lemma unpack_fields_fmt:
  "unpack_fields ord ''IIIIIfII'' bs =
    [UInt (uint_at ord bs 0), UInt (uint_at ord bs 4), UInt (uint_at ord bs 8),
     UInt (uint_at ord bs 12), UInt (uint_at ord bs 16), Float32 (take 4 (drop 20 bs)),
     UInt (uint_at ord bs 24), UInt (uint_at ord bs 28)]"
  by (simp add: uint_at_def)

lemma struct_unpack_fmt:
  "struct_unpack ord ''IIIIIfII'' bs =
    (if length bs = 32 then Inr (unpack_fields ord ''IIIIIfII'' bs) else Inl Struct_error)"
  unfolding struct_unpack_def calcsize_fmt by auto

lemma decode_record_not_32:
  "length rec \<noteq> 32 \<Longrightarrow> decode_record strptime ord rec = Inl Struct_error"
  unfolding decode_record_def struct_unpack_fmt by simp

lemma decode_record_32:
  assumes "length rec = 32"
  shows "decode_record strptime ord rec =
    (if date_ok strptime ord rec 0 then Inr (bar_at strptime ord rec 0) else Inl Unconverted_date)"
  unfolding decode_record_def struct_unpack_fmt unpack_fields_fmt using assms
  by (simp add: date_ok_def bar_at_def split: option.splits)

lemma length_slice:
  "hi \<le> length buffer \<Longrightarrow> length (slice buffer lo hi) = hi - lo"
  by (simp add: slice_def)

lemma uint_at_slice:
  assumes "k + 4 \<le> hi - lo"
  shows "uint_at ord (slice buffer lo hi) k = uint_at ord buffer (lo + k)"
proof -
  have "take 4 (drop k (take (hi - lo) (drop lo buffer))) = take 4 (drop (lo + k) buffer)"
    using assms by (simp add: drop_take min_def add.commute)
  then show ?thesis by (simp add: uint_at_def slice_def)
qed

lemma uint_at_take:
  assumes "k + 4 \<le> n"
  shows "uint_at ord (take n buffer) k = uint_at ord buffer k"
  using assms by (simp add: uint_at_def drop_take min_def)

lemma bar_at_slice:
  assumes "28 \<le> hi - lo"
  shows "bar_at strptime ord (slice buffer lo hi) 0 = bar_at strptime ord buffer lo"
  unfolding bar_at_def using assms uint_at_slice [of 0 hi lo ord buffer]
  by (simp add: uint_at_slice)

lemma date_ok_slice:
  assumes "4 \<le> hi - lo"
  shows "date_ok strptime ord (slice buffer lo hi) 0 = date_ok strptime ord buffer lo"
  unfolding date_ok_def using assms uint_at_slice [of 0 hi lo ord buffer] by simp

lemma bar_at_take:
  assumes "k + 28 \<le> n"
  shows "bar_at strptime ord (take n buffer) k = bar_at strptime ord buffer k"
  unfolding bar_at_def using assms by (simp add: uint_at_take)

lemma date_ok_take:
  assumes "k + 4 \<le> n"
  shows "date_ok strptime ord (take n buffer) k = date_ok strptime ord buffer k"
  unfolding date_ok_def using assms by (simp add: uint_at_take)

text \<open>The record that the loop slices out at index i is the one at byte 32 i.\<close>

lemma decode_slice:
  assumes "i < length buffer div 32"
  shows "decode_record strptime ord (slice buffer (i * 32) ((i + 1) * 32)) =
    (if date_ok strptime ord buffer (i * 32) then Inr (bar_at strptime ord buffer (i * 32))
     else Inl Unconverted_date)"
proof -
  from assms have "(i + 1) * 32 \<le> length buffer" by simp
  then have "length (slice buffer (i * 32) ((i + 1) * 32)) = (i + 1) * 32 - i * 32"
    by (rule length_slice)
  then have len: "length (slice buffer (i * 32) ((i + 1) * 32)) = 32" by simp
  have b: "bar_at strptime ord (slice buffer (i * 32) ((i + 1) * 32)) 0 = bar_at strptime ord buffer (i * 32)"
    by (rule bar_at_slice) simp
  have d: "date_ok strptime ord (slice buffer (i * 32) ((i + 1) * 32)) 0 = date_ok strptime ord buffer (i * 32)"
    by (rule date_ok_slice) simp
  show ?thesis unfolding decode_record_32 [OF len] b d ..
qed

lemma read_records_eq:
  assumes "\<forall>i\<in>set is. i < length buffer div 32"
  shows "read_records strptime ord buffer is data =
    (if \<forall>i\<in>set is. date_ok strptime ord buffer (i * 32)
     then Inr (data @ map (\<lambda>i. bar_at strptime ord buffer (i * 32)) is)
     else Inl Unconverted_date)"
  using assms
proof (induction "is" arbitrary: data)
  case Nil
  then show ?case by simp
next
  case (Cons i "is")
  from Cons.prems have i: "i < length buffer div 32" and rest: "\<forall>i\<in>set is. i < length buffer div 32"
    by simp_all
  show ?case
    unfolding read_records.simps decode_slice [OF i]
    by (simp add: Cons.IH [OF rest])
qed

lemma read_day_file_eq:
  "read_day_file strptime ord buffer =
    (if \<forall>i < length buffer div 32. date_ok strptime ord buffer (i * 32)
     then Inr (map (\<lambda>i. bar_at strptime ord buffer (i * 32)) [0..<length buffer div 32])
     else Inl (ValueError Unconverted_date))"
  unfolding read_day_file_def Let_def
  by (simp add: read_records_eq)

text \<open>Decoded prices are never negative: they are unsigned integers over 100.\<close>

lemma read_day_file_closes_nonneg:
  assumes "read_day_file strptime ord buffer = Inr decoded"
  shows "\<forall>b\<in>set decoded. 0 \<le> Close b"
  using assms unfolding read_day_file_eq
  by (auto simp add: bar_at_def split: if_splits)

text \<open>Evaluation of the sample buffer.\<close>

lemma forall_less_2: "(\<forall>i<2. P i) = (P (0::nat) \<and> P 1)"
  by (auto simp add: numeral_2_eq_2 less_Suc_eq)

lemma upt_0_2: "[0..<2] = [0, 1]"
  by (simp add: numeral_2_eq_2)

lemma str_nat_20240101: "str_nat 20240101 = ''20240101''"
  by (simp add: str_nat.simps digit_char_def)

lemma str_nat_20240102: "str_nat 20240102 = ''20240102''"
  by (simp add: str_nat.simps digit_char_def)

lemma ymd_reader_20240101: "ymd_reader ''20240101'' = Some (Date 2024 1 1)"
  by (simp add: ymd_reader_def digit_val_def days_in_month_def leap_year_def
      month_matches_def day_matches_def char_val_def)

lemma ymd_reader_20240102: "ymd_reader ''20240102'' = Some (Date 2024 1 2)"
  by (simp add: ymd_reader_def digit_val_def days_in_month_def leap_year_def
      month_matches_def day_matches_def char_val_def)

text \<open>A string of seven digits that the library reads as a date, and one that it refuses.\<close>

lemma ymd_reader_2024115: "ymd_reader ''2024115'' = Some (Date 2024 11 5)"
  by (simp add: ymd_reader_def digit_val_def days_in_month_def leap_year_def
      month_matches_def day_matches_def char_val_def)

lemma ymd_reader_20241301: "ymd_reader ''20241301'' = None"
  by (simp add: ymd_reader_def digit_val_def days_in_month_def leap_year_def
      month_matches_def day_matches_def char_val_def)

lemma sample_uints:
  "uint_at LittleEndian sample_buffer 0 = 20240101"
  "uint_at LittleEndian sample_buffer 4 = 1000"
  "uint_at LittleEndian sample_buffer 8 = 1100"
  "uint_at LittleEndian sample_buffer 12 = 900"
  "uint_at LittleEndian sample_buffer 16 = 33333"
  "uint_at LittleEndian sample_buffer 24 = 10000"
  "uint_at LittleEndian sample_buffer 32 = 20240102"
  "uint_at LittleEndian sample_buffer 36 = 33333"
  "uint_at LittleEndian sample_buffer 40 = 34000"
  "uint_at LittleEndian sample_buffer 44 = 33000"
  "uint_at LittleEndian sample_buffer 48 = 33500"
  "uint_at LittleEndian sample_buffer 56 = 20000"
  by (simp_all add: uint_at_def sample_buffer_def unpack_I_def)

text \<open>
  C1. For a buffer whose length is a multiple of 32, say 32 n, the decoder turns the n
  consecutive records into n bars in order. The bar of the record at byte 32 i has as
  its date the parse of the decimal string of the unsigned integer at bytes 0..3 of the
  record, as open, high, low and close the unsigned integers at bytes 4..7, 8..11,
  12..15 and 16..19 divided by 100, and as volume the unsigned integer at bytes 24..27;
  the float at bytes 20..23 and the integer at bytes 28..31 are not used. If the date
  of some record does not parse, the whole call fails with a ValueError.
\<close>

theorem read_day_file_layout:
  assumes "length buffer = 32 * n"
  shows "read_day_file strptime ord buffer =
    (if \<forall>i<n. date_ok strptime ord buffer (32 * i)
     then Inr (map (\<lambda>i. bar_at strptime ord buffer (32 * i)) [0..<n])
     else Inl (ValueError Unconverted_date))"
proof -
  from assms have "length buffer div 32 = n" by simp
  then show ?thesis
    unfolding read_day_file_eq [of strptime ord buffer] by (simp add: mult.commute)
qed

theorem read_day_file_layout_witness:
  "length sample_buffer = 32 * 2
   \<and> read_day_file ymd_reader LittleEndian sample_buffer = Inr sample_bars"
proof -
  have len: "length sample_buffer = 32 * 2" by (simp add: sample_buffer_def)
  show ?thesis
    using len read_day_file_layout [OF len, of ymd_reader LittleEndian]
    by (simp add: forall_less_2 upt_0_2 date_ok_def bar_at_def sample_uints sample_bars_def
        str_nat_20240101 str_nat_20240102 ymd_reader_20240101 ymd_reader_20240102)
qed

text \<open>
  C6. Decoding any buffer gives the result of decoding its longest prefix whose length
  is a multiple of 32: the bytes of a trailing partial record are never read, and the
  length of the buffer is never the reason for a failure (no unpacking error arises).
\<close>

theorem trailing_bytes_dropped:
  "read_day_file strptime ord buffer =
     read_day_file strptime ord (take (32 * (length buffer div 32)) buffer)
   \<and> read_day_file strptime ord buffer \<noteq> Inl (ValueError Struct_error)"
proof -
  let ?n = "length buffer div 32"
  let ?t = "take (32 * ?n) buffer"
  have len: "length ?t div 32 = ?n" by simp
  have d: "date_ok strptime ord ?t (i * 32) = date_ok strptime ord buffer (i * 32)" if "i < ?n" for i
    by (rule date_ok_take) (use that in simp)
  have b: "bar_at strptime ord ?t (i * 32) = bar_at strptime ord buffer (i * 32)" if "i < ?n" for i
    by (rule bar_at_take) (use that in simp)
  have "read_day_file strptime ord ?t = read_day_file strptime ord buffer"
    unfolding read_day_file_eq [of strptime ord ?t] read_day_file_eq [of strptime ord buffer] len
    using d b by auto
  moreover have "read_day_file strptime ord buffer \<noteq> Inl (ValueError Struct_error)"
    unfolding read_day_file_eq [of strptime ord buffer] by simp
  ultimately show ?thesis by simp
qed

theorem trailing_bytes_dropped_witness:
  "read_day_file ymd_reader LittleEndian (sample_buffer @ [1, 2, 3]) = Inr sample_bars"
proof -
  have t: "take (32 * (length (sample_buffer @ [1, 2, 3]) div 32)) (sample_buffer @ [1, 2, 3]) = sample_buffer"
    by (simp add: sample_buffer_def)
  have len: "length sample_buffer = 32 * 2" by (simp add: sample_buffer_def)
  have "read_day_file ymd_reader LittleEndian sample_buffer = Inr sample_bars"
    using read_day_file_eq [of ymd_reader LittleEndian sample_buffer] len
    by (simp add: forall_less_2 upt_0_2 date_ok_def bar_at_def sample_uints sample_bars_def
        str_nat_20240101 str_nat_20240102 ymd_reader_20240101 ymd_reader_20240102)
  then show ?thesis
    using trailing_bytes_dropped [of ymd_reader LittleEndian "sample_buffer @ [1, 2, 3]"] t
    by simp
qed


section \<open>Evaluation of the floating-point operations\<close>

lemma floor_rat_numeral [simp]:
  "\<lfloor>(numeral a :: rat) / numeral b\<rfloor> = numeral a div numeral b"
  using floor_divide_of_int_eq [of "numeral a" "numeral b", where ?'a = rat] by simp

lemma floor_rat_neg_numeral [simp]:
  "\<lfloor>- ((numeral a :: rat) / numeral b)\<rfloor> = - numeral a div numeral b"
  using floor_divide_of_int_eq [of "- numeral a" "numeral b", where ?'a = rat] by simp

lemma ceiling_rat_numeral [simp]:
  "\<lceil>(numeral a :: rat) / numeral b\<rceil> = - (- numeral a div numeral b)"
  unfolding ceiling_def by simp

lemmas fp_eval = round_double_def floor_log2_def pow2_def round_half_even_def Let_def
  bit_length.simps fp_sub_def fp_signed_inf_def fmod_def snap_def

text \<open>The double nearest to 333.33 is 5864003374185185 / 2^44.\<close>

lemma double_333_33: "round_double (33333 / 100) = Fin (5864003374185185 / 17592186044416)"
  by (simp add: fp_eval)

lemma double_ints:
  "round_double 0 = Fin 0" "round_double 1 = Fin 1" "round_double 5 = Fin 5"
  "round_double 320 = Fin 320" "round_double 350 = Fin 350"
  "round_double 96000 = Fin 96000" "round_double 96001 = Fin 96001"
  "round_double 100000 = Fin 100000"
  "round_double 105000 = Fin 105000" "round_double 105001 = Fin 105001"
  by (simp_all add: fp_eval)

text \<open>100000 // 333.33 is 300, and 300 shares cost 99999 after rounding.\<close>

lemma floor_divide_333_33: "fp_floor_divide (Fin 100000) (round_double (33333 / 100)) = Fin 300"
  unfolding double_333_33 by (simp add: fp_eval)

lemma mul_300_333_33: "fp_mul (Fin 300) (round_double (33333 / 100)) = Fin 99999"
  unfolding double_333_33 by (simp add: fp_eval)

lemma sample_arith:
  "fp_sub (Fin 100000) (Fin 99999) = Fin 1"
  "fp_add (Fin 1) (Fin 99999) = Fin 100000"
  "fp_mul (Fin 300) (Fin 320) = Fin 96000"
  "fp_add (Fin 1) (Fin 96000) = Fin 96001"
  "fp_mul (Fin 300) (Fin 350) = Fin 105000"
  "fp_add (Fin 1) (Fin 105000) = Fin 105001"
  "fp_mul (Fin 0) (Fin 350) = Fin 0"
  "fp_add (Fin 105001) (Fin 0) = Fin 105001"
  by (simp_all add: fp_eval)

lemma floor_divide_poor: "fp_floor_divide (Fin 1) (round_double (33333 / 100)) = Fin 0"
  unfolding double_333_33 by (simp add: fp_eval)

text \<open>
  With ordinary prices the doubles part from exact arithmetic: at a close of 3.20 the
  exact quotient 100000 / 3.2 is 31250, and the program buys 31249 shares.
\<close>

lemma floor_divide_3_20: "fp_floor_divide (Fin 100000) (round_double (320 / 100)) = Fin 31249"
  by (simp add: fp_eval)

text \<open>The cash that is left then is 3.1999999999970896, that is 219902325555 / 2^36.\<close>

lemma cash_after_3_20:
  "fp_sub (Fin 100000) (fp_mul (Fin 31249) (round_double (320 / 100)))
     = Fin (219902325555 / 68719476736)"
  by (simp add: fp_eval)

text \<open>Division by a close of 0, and what follows from it.\<close>

lemma zero_arith:
  "fp_floor_divide (Fin 100000) (Fin 0) = PInf"
  "fp_less PInf (Fin 1) = False"
  "fp_mul PInf (Fin 0) = NaN"
  "fp_sub (Fin 100000) NaN = NaN"
  "fp_add NaN NaN = NaN"
  "fp_mul PInf (Fin 5) = PInf"
  "fp_add NaN PInf = NaN"
  "fp_mul (Fin 0) (Fin 5) = Fin 0"
  "fp_add NaN (Fin 0) = NaN"
  by (simp_all add: fp_eval)


section \<open>Properties of the ledger\<close>

text \<open>_execute_trade, branch by branch.\<close>

lemma execute_trade_at_end:
  "at_end s \<Longrightarrow> execute_trade s a = Rejected End_of_data s"
  by (simp add: execute_trade_def at_end_def)

lemma execute_trade_buy:
  assumes "\<not> at_end s"
  shows "execute_trade s Buy =
    (if fp_less (Fin 0) (position s) then Rejected Already_holding s
     else if fp_less (fp_floor_divide (cash s) (current_close s)) (Fin 1)
       then Rejected Insufficient_cash s
     else Accepted (record_trade
            (s\<lparr>position := fp_floor_divide (cash s) (current_close s),
               cash := fp_sub (cash s)
                 (fp_mul (fp_floor_divide (cash s) (current_close s)) (current_close s)),
               buy_signals := (buy_signals s)(current_date s \<mapsto> current_close s)\<rparr>)
            Buy (current_date s) (current_close s)))"
  using assms by (simp add: execute_trade_def at_end_def current_close_def current_date_def Let_def)

lemma execute_trade_sell:
  assumes "\<not> at_end s"
  shows "execute_trade s Sell =
    (if fp_eq (position s) (Fin 0) then Rejected No_position s
     else Accepted (record_trade
            (s\<lparr>cash := fp_add (cash s) (fp_mul (position s) (current_close s)),
               position := Fin 0,
               sell_signals := (sell_signals s)(current_date s \<mapsto> current_close s)\<rparr>)
            Sell (current_date s) (current_close s)))"
  using assms by (simp add: execute_trade_def at_end_def current_close_def current_date_def Let_def)

lemma execute_trade_hold:
  assumes "\<not> at_end s"
  shows "execute_trade s Hold = Accepted (record_trade s Hold (current_date s) (current_close s))"
  using assms by (simp add: execute_trade_def at_end_def current_close_def current_date_def Let_def)

lemma rejected_same:
  assumes "execute_trade s a = Rejected n s'"
  shows "s' = s"
proof (cases "at_end s")
  case True
  with assms show ?thesis by (simp add: execute_trade_at_end)
next
  case False
  with assms show ?thesis
    by (cases a) (simp_all add: execute_trade_buy execute_trade_sell execute_trade_hold split: if_splits)
qed

lemma accepted_not_at_end:
  assumes "execute_trade s a = Accepted s'"
  shows "\<not> at_end s"
  using assms by (auto simp add: execute_trade_at_end)

text \<open>The sample session, step by step.\<close>

lemma length_sample_session: "length sample_session = 185"
  by (simp add: sample_session_def)

lemma sample_session_nth:
  "sample_session ! 64 = day_bar 1 (33333 / 100)"
  "sample_session ! 65 = day_bar 2 320"
  "sample_session ! 66 = day_bar 3 350"
  by (simp_all add: sample_session_def nth_append)

lemma sample_start_fields:
  "current_data sample_start = sample_session" "current_index sample_start = 64"
  "cash sample_start = Fin 100000" "position sample_start = Fin 0"
  by (simp_all add: sample_start_def reset_trading_state_def new_simulator_def INITIAL_CAPITAL_def)

lemma sample_not_at_end:
  "\<not> at_end sample_start" "\<not> at_end sample_bought" "\<not> at_end sample_held"
  by (simp_all add: at_end_def sample_start_fields length_sample_session sample_bought_def sample_held_def)

lemma sample_closes:
  "current_close sample_start = round_double (33333 / 100)"
  "current_date sample_start = Date 2024 4 1"
  "current_close sample_bought = Fin 320" "current_date sample_bought = Date 2024 4 2"
  "current_close sample_held = Fin 350" "current_date sample_held = Date 2024 4 3"
  by (simp_all add: current_close_def current_date_def sample_start_fields sample_bought_def
      sample_held_def sample_session_nth day_bar_def double_ints)

lemma sample_buy: "execute_trade sample_start Buy = Accepted sample_bought"
  unfolding execute_trade_buy [OF sample_not_at_end(1)] sample_closes sample_start_fields
    floor_divide_333_33 mul_300_333_33
  by (simp add: mul_300_333_33 double_ints fp_sub_def record_trade_def sample_bought_def
      sample_start_def reset_trading_state_def new_simulator_def INITIAL_CAPITAL_def)

lemma sample_hold: "execute_trade sample_bought Hold = Accepted sample_held"
  unfolding execute_trade_hold [OF sample_not_at_end(2)] sample_closes
  by (simp add: record_trade_def sample_bought_def sample_held_def double_ints)

lemma sample_sell: "execute_trade sample_held Sell = Accepted sample_sold"
  unfolding execute_trade_sell [OF sample_not_at_end(3)] sample_closes
  by (simp add: record_trade_def sample_held_def sample_sold_def double_ints fp_eq_def)

lemma sample_run: "run sample_start [Buy, Hold, Sell] = sample_sold"
  by (simp add: sample_buy sample_hold sample_sell)

lemma sample_start_reachable: "start_simulation new_simulator sample_session 0 = Some sample_start"
  by (simp add: start_simulation_def SIMULATION_DAYS_def length_sample_session slice_def
      sample_start_def)

text \<open>The session with a close of 0, step by step.\<close>

lemma length_zero_session: "length zero_session = 185"
  by (simp add: zero_session_def)

lemma zero_session_nth:
  "zero_session ! 64 = day_bar 1 0" "zero_session ! 65 = day_bar 2 5"
  by (simp_all add: zero_session_def nth_append)

lemma zero_start_fields:
  "current_data zero_start = zero_session" "current_index zero_start = 64"
  "cash zero_start = Fin 100000" "position zero_start = Fin 0"
  by (simp_all add: zero_start_def reset_trading_state_def new_simulator_def INITIAL_CAPITAL_def)

lemma zero_not_at_end: "\<not> at_end zero_start" "\<not> at_end zero_bought"
  by (simp_all add: at_end_def zero_start_fields length_zero_session zero_bought_def)

lemma zero_closes:
  "current_close zero_start = Fin 0" "current_date zero_start = Date 2024 4 1"
  "current_close zero_bought = Fin 5" "current_date zero_bought = Date 2024 4 2"
  by (simp_all add: current_close_def current_date_def zero_start_fields zero_bought_def
      zero_session_nth day_bar_def double_ints)

lemma zero_start_reachable: "start_simulation new_simulator zero_session 0 = Some zero_start"
  by (simp add: start_simulation_def SIMULATION_DAYS_def length_zero_session slice_def
      zero_start_def)

lemma zero_buy: "execute_trade zero_start Buy = Accepted zero_bought"
  unfolding execute_trade_buy [OF zero_not_at_end(1)] zero_closes zero_start_fields
  by (simp add: fp_signed_inf_def fp_sub_def record_trade_def zero_bought_def
      zero_start_def reset_trading_state_def new_simulator_def INITIAL_CAPITAL_def)

lemma zero_sell: "execute_trade zero_bought Sell = Accepted zero_sold"
  unfolding execute_trade_sell [OF zero_not_at_end(2)] zero_closes
  by (simp add: fp_signed_inf_def double_ints record_trade_def zero_bought_def zero_sold_def
      fp_eq_def)

lemma zero_run: "run zero_start [Buy, Sell] = zero_sold"
  by (simp add: zero_buy zero_sell)


text \<open>
  C5. A call of _execute_trade that is rejected returns the ledger it was given: cash,
  position, trade log, equity curve and cursor are all as before. The rejections are:
  any action once the cursor has reached the last index of the session; a buy while the
  position is positive; a buy when the floor division of cash by the close is below 1;
  a sell while the position is 0.
\<close>

theorem rejected_actions_leave_ledger:
  "(at_end s \<longrightarrow> execute_trade s a = Rejected End_of_data s)
   \<and> (\<not> at_end s \<and> fp_less (Fin 0) (position s)
        \<longrightarrow> execute_trade s Buy = Rejected Already_holding s)
   \<and> (\<not> at_end s \<and> \<not> fp_less (Fin 0) (position s)
        \<and> fp_less (fp_floor_divide (cash s) (current_close s)) (Fin 1)
        \<longrightarrow> execute_trade s Buy = Rejected Insufficient_cash s)
   \<and> (\<not> at_end s \<and> fp_eq (position s) (Fin 0)
        \<longrightarrow> execute_trade s Sell = Rejected No_position s)
   \<and> (\<forall>n s'. execute_trade s a = Rejected n s' \<longrightarrow> s' = s)"
  by (auto simp add: execute_trade_at_end execute_trade_buy execute_trade_sell rejected_same)

theorem rejected_actions_leave_ledger_witness:
  "at_end sample_last
   \<and> execute_trade sample_last Hold = Rejected End_of_data sample_last
   \<and> execute_trade sample_bought Buy = Rejected Already_holding sample_bought
   \<and> execute_trade sample_poor Buy = Rejected Insufficient_cash sample_poor
   \<and> execute_trade sample_start Sell = Rejected No_position sample_start"
proof -
  have e: "at_end sample_last"
    by (simp add: at_end_def sample_last_def sample_bought_def length_sample_session)
  have "fp_less (Fin 0) (position sample_bought)" by (simp add: sample_bought_def)
  with sample_not_at_end(2)
  have b: "\<not> at_end sample_bought \<and> fp_less (Fin 0) (position sample_bought)" ..
  have "current_close sample_poor = round_double (33333 / 100)"
    by (simp add: current_close_def sample_poor_def sample_start_fields sample_session_nth
        day_bar_def)
  then have p: "\<not> at_end sample_poor \<and> \<not> fp_less (Fin 0) (position sample_poor)
      \<and> fp_less (fp_floor_divide (cash sample_poor) (current_close sample_poor)) (Fin 1)"
    by (simp add: at_end_def sample_poor_def sample_start_fields length_sample_session
        floor_divide_poor)
  have n: "\<not> at_end sample_start \<and> fp_eq (position sample_start) (Fin 0)"
    by (simp add: sample_not_at_end sample_start_fields fp_eq_def)
  have 1: "execute_trade sample_last Hold = Rejected End_of_data sample_last"
    using rejected_actions_leave_ledger [of sample_last Hold, THEN conjunct1] e ..
  have 2: "execute_trade sample_bought Buy = Rejected Already_holding sample_bought"
    using rejected_actions_leave_ledger [of sample_bought Buy, THEN conjunct2, THEN conjunct1] b ..
  have 3: "execute_trade sample_poor Buy = Rejected Insufficient_cash sample_poor"
    using rejected_actions_leave_ledger
      [of sample_poor Buy, THEN conjunct2, THEN conjunct2, THEN conjunct1] p ..
  have 4: "execute_trade sample_start Sell = Rejected No_position sample_start"
    using rejected_actions_leave_ledger
      [of sample_start Sell, THEN conjunct2, THEN conjunct2, THEN conjunct2, THEN conjunct1] n ..
  from e 1 2 3 4 show ?thesis by (intro conjI)
qed

text \<open>
  C7. When an action is accepted, the cursor is inside the session, and the price and
  the date written to the trade log are the close and the date of the bar at the
  cursor. The whole outcome is the same for every session of the same length that has
  this bar at the cursor, whatever its other bars are: no later bar is read.
\<close>

theorem no_lookahead:
  assumes "execute_trade s a = Accepted s'"
  shows "current_index s < length (current_data s)
    \<and> t_price (last (trade_log s')) = round_double (Close (current_data s ! current_index s))
    \<and> t_date (last (trade_log s')) = Date_of (current_data s ! current_index s)
    \<and> (\<forall>bars. length bars = length (current_data s)
          \<and> bars ! current_index s = current_data s ! current_index s
          \<longrightarrow> execute_trade (s\<lparr>current_data := bars\<rparr>) a = Accepted (s'\<lparr>current_data := bars\<rparr>))"
proof -
  from assms have ne: "\<not> at_end s" by (rule accepted_not_at_end)
  then have idx: "current_index s < length (current_data s)" by (simp add: at_end_def)
  have "t_price (last (trade_log s')) = round_double (Close (current_data s ! current_index s))
    \<and> t_date (last (trade_log s')) = Date_of (current_data s ! current_index s)"
    using assms
    by (cases a)
      (auto simp add: execute_trade_buy [OF ne] execute_trade_sell [OF ne] execute_trade_hold [OF ne]
        record_trade_def current_close_def current_date_def split: if_splits)
  moreover have "execute_trade (s\<lparr>current_data := bars\<rparr>) a = Accepted (s'\<lparr>current_data := bars\<rparr>)"
    if "length bars = length (current_data s)"
      and "bars ! current_index s = current_data s ! current_index s" for bars
  proof -
    have ne': "\<not> at_end (s\<lparr>current_data := bars\<rparr>)" using ne that(1) by (simp add: at_end_def)
    show ?thesis
      using assms that(2)
      by (cases a)
        (auto simp add: execute_trade_buy [OF ne] execute_trade_sell [OF ne] execute_trade_hold [OF ne]
          execute_trade_buy [OF ne'] execute_trade_sell [OF ne'] execute_trade_hold [OF ne']
          record_trade_def current_close_def current_date_def split: if_splits)
  qed
  ultimately show ?thesis using idx by blast
qed

theorem no_lookahead_witness:
  "execute_trade sample_start Buy = Accepted sample_bought
   \<and> t_price (last (trade_log sample_bought)) = round_double (33333 / 100)
   \<and> t_date (last (trade_log sample_bought)) = Date 2024 4 1
   \<and> execute_trade (sample_start\<lparr>current_data := alt_session\<rparr>) Buy
       = Accepted (sample_bought\<lparr>current_data := alt_session\<rparr>)"
proof -
  have l: "length alt_session = length (current_data sample_start)"
    by (simp add: alt_session_def sample_start_fields)
  have c: "alt_session ! current_index sample_start = current_data sample_start ! current_index sample_start"
    by (simp add: alt_session_def sample_start_fields)
  note nl = no_lookahead [OF sample_buy]
  have a: "execute_trade (sample_start\<lparr>current_data := alt_session\<rparr>) Buy
       = Accepted (sample_bought\<lparr>current_data := alt_session\<rparr>)"
    using nl [THEN conjunct2, THEN conjunct2, THEN conjunct2, THEN spec, of alt_session] l c
    by (rule mp [OF _ conjI])
  have p: "t_price (last (trade_log sample_bought)) = round_double (33333 / 100)"
    using nl [THEN conjunct2, THEN conjunct1]
    by (simp add: sample_start_fields sample_session_nth day_bar_def)
  have d: "t_date (last (trade_log sample_bought)) = Date 2024 4 1"
    using nl [THEN conjunct2, THEN conjunct2, THEN conjunct1]
    by (simp add: sample_start_fields sample_session_nth day_bar_def)
  from sample_buy p d a show ?thesis by (intro conjI)
qed

text \<open>
  C9, as the code has it. For every accepted action the record appended to the log
  carries the action and the cash that results from it. Its shares field is the
  resulting position after a buy and 0 after a sell or a hold: that is the resulting
  position for a buy, for a sell, and for a hold made with no position, and it is 0
  for a hold made while shares are held.
\<close>

theorem trade_record_fields:
  assumes "execute_trade s a = Accepted s'"
  shows "t_cash (last (trade_log s')) = cash s'
    \<and> t_action (last (trade_log s')) = a
    \<and> t_shares (last (trade_log s')) = (if a = Buy then position s' else Fin 0)
    \<and> (a \<noteq> Hold \<longrightarrow> t_shares (last (trade_log s')) = position s')
    \<and> (a = Hold \<and> position s = Fin 0 \<longrightarrow> t_shares (last (trade_log s')) = position s')
    \<and> trade_log s' = trade_log s @ [last (trade_log s')]"
proof -
  from assms have ne: "\<not> at_end s" by (rule accepted_not_at_end)
  show ?thesis
    using assms
    by (cases a)
      (auto simp add: execute_trade_buy [OF ne] execute_trade_sell [OF ne] execute_trade_hold [OF ne]
        record_trade_def split: if_splits)
qed

theorem trade_record_fields_witness:
  "execute_trade sample_bought Hold = Accepted sample_held
   \<and> t_cash (last (trade_log sample_held)) = cash sample_held
   \<and> t_shares (last (trade_log sample_held)) = Fin 0
   \<and> execute_trade sample_start Buy = Accepted sample_bought
   \<and> t_shares (last (trade_log sample_bought)) = position sample_bought
   \<and> t_cash (last (trade_log sample_bought)) = cash sample_bought"
  using trade_record_fields [OF sample_hold] trade_record_fields [OF sample_buy]
  by (simp add: sample_hold sample_buy)

text \<open>
  C9 as stated fails: after a buy of 300 shares, a hold leaves the position at 300 and
  appends a record whose shares field is 0.
\<close>

theorem hold_records_no_shares:
  "execute_trade sample_bought Hold = Accepted sample_held
   \<and> position sample_held = Fin 300
   \<and> t_shares (last (trade_log sample_held)) = Fin 0
   \<and> t_shares (last (trade_log sample_held)) \<noteq> position sample_held"
  by (simp add: sample_hold sample_held_def)

text \<open>
  C10. On a bar whose close is 0 a buy with no position is not rejected and raises
  nothing: the floor division of 100000 by 0 is an infinity, which is not below 1, so
  the buy is accepted. The position becomes infinite, cash becomes NaN (100000 minus
  infinity times 0), a record is appended to the log, NaN to the equity curve, and the
  cursor moves on.
\<close>

theorem zero_close_buy_is_accepted:
  "\<not> at_end zero_start
   \<and> position zero_start = Fin 0
   \<and> current_close zero_start = Fin 0
   \<and> execute_trade zero_start Buy = Accepted zero_bought
   \<and> cash zero_start = Fin 100000 \<and> cash zero_bought = NaN
   \<and> position zero_bought = PInf
   \<and> trade_log zero_start = [] \<and> length (trade_log zero_bought) = 1
   \<and> equity_curve zero_start = [Fin 100000] \<and> equity_curve zero_bought = [Fin 100000, NaN]
   \<and> current_index zero_start = 64 \<and> current_index zero_bought = 65"
  by (simp add: zero_not_at_end zero_closes zero_buy zero_start_fields)
    (simp add: zero_bought_def zero_start_def reset_trading_state_def new_simulator_def
      INITIAL_CAPITAL_def)

text \<open>
  C2. The accepted buy at a close of 0 does not keep the equity: from cash 100000 and
  position 0 it leads to an infinite position and NaN in cash, cash plus position times
  price is NaN, not the cash before the buy, and the equity curve receives NaN after
  100000.
\<close>

theorem zero_close_buy_loses_equity:
  "position zero_start = Fin 0
   \<and> execute_trade zero_start Buy = Accepted zero_bought
   \<and> position zero_bought = PInf
   \<and> fp_add (cash zero_bought) (fp_mul (position zero_bought) (current_close zero_start)) = NaN
   \<and> \<not> fp_eq (fp_add (cash zero_bought) (fp_mul (position zero_bought) (current_close zero_start)))
          (cash zero_start)
   \<and> last (equity_curve zero_start) = Fin 100000
   \<and> last (equity_curve zero_bought) = NaN"
  by (simp add: zero_buy zero_start_fields zero_closes)
    (simp add: zero_bought_def zero_start_def reset_trading_state_def new_simulator_def
      INITIAL_CAPITAL_def fp_eq_def)

text \<open>
  C8. From the fresh ledger (cash 100000, no position) the buy at a close of 0 leaves
  NaN in cash, which is not at least 0, and cash stays NaN after the sell that follows.
\<close>

theorem zero_close_buy_makes_cash_nan:
  "fp_le (Fin 0) (cash zero_start)
   \<and> position zero_start = Fin 0
   \<and> run zero_start [Buy] = zero_bought
   \<and> cash zero_bought = NaN
   \<and> \<not> fp_le (Fin 0) (cash zero_bought)
   \<and> run zero_start [Buy, Sell] = zero_sold
   \<and> \<not> fp_le (Fin 0) (cash zero_sold)"
  by (simp add: zero_buy zero_sell zero_start_fields fp_le_def fp_eq_def)
    (simp add: zero_bought_def zero_sold_def)


section \<open>Properties of the statistics\<close>

text \<open>
  On a log whose buy entries have a price other than 0 the loop counts the pairs of
  the specification; the example log of the specification gives 1/2.
\<close>

lemma win_loop_pairs:
  assumes "\<forall>tr\<in>set trades. t_action tr = Buy \<longrightarrow> t_price tr \<noteq> Fin 0"
    and "pending \<noteq> Some (Fin 0)"
  shows "win_loop trades w t pending =
    (w + length (filter is_win (paired_trades trades pending)),
     t + length (paired_trades trades pending))"
  using assms
proof (induction trades arbitrary: w t pending)
  case Nil
  then show ?case by simp
next
  case (Cons tr trs)
  show ?case
  proof (cases "t_action tr")
    case Buy
    with Cons.prems have "Some (t_price tr) \<noteq> Some (Fin 0)" by simp
    with Cons Buy show ?thesis by simp
  next
    case Sell
    show ?thesis
    proof (cases pending)
      case None
      with Cons Sell show ?thesis by (simp add: truthy_def)
    next
      case (Some b)
      with Cons.prems have "b \<noteq> Fin 0" by simp
      with Cons Sell Some show ?thesis by (simp add: truthy_def is_win_def)
    qed
  next
    case Hold
    with Cons show ?thesis by simp
  qed
qed

lemma double_half: "round_double (1 / 2) = Fin (1 / 2)"
  by (simp add: fp_eval)

lemma win_rate_example: "win_rate example_log = Fin (1 / 2)"
  by (simp add: win_rate_def example_log_def entry_def truthy_def double_half)

text \<open>
  C3. The log that the ledger writes for a buy at a close of 0 and the sell after it
  holds a buy at price 0 and a sell at price 5. The specification pairs the two and
  counts a win, a rate of 1. The loop tests the pending price by its truth value, takes
  the 0 for no pending buy, pairs nothing, and the rate is 0.
\<close>

theorem zero_price_buy_is_not_paired:
  "run zero_start [Buy, Sell] = zero_sold
   \<and> map t_action (trade_log zero_sold) = [Buy, Sell]
   \<and> map t_price (trade_log zero_sold) = [Fin 0, Fin 5]
   \<and> paired_trades (trade_log zero_sold) None = [(Fin 0, Fin 5)]
   \<and> win_rate_spec (trade_log zero_sold) = 1
   \<and> win_rate (trade_log zero_sold) = Fin 0"
proof -
  have "map t_action (trade_log zero_sold) = [Buy, Sell]"
    and "map t_price (trade_log zero_sold) = [Fin 0, Fin 5]"
    and "paired_trades (trade_log zero_sold) None = [(Fin 0, Fin 5)]"
    and "win_rate_spec (trade_log zero_sold) = 1"
    and "win_rate (trade_log zero_sold) = Fin 0"
    by (simp_all add: zero_sold_def win_rate_spec_def win_rate_def truthy_def is_win_def)
  with zero_run show ?thesis by (intro conjI)
qed


text \<open>The drawdown loop and the running peak.\<close>

lemma Max_snoc:
  fixes xs :: "rat list"
  assumes "xs \<noteq> []"
  shows "Max (set (xs @ [x])) = max (Max (set xs)) x"
proof -
  have "Max (insert x (set xs)) = max x (Max (set xs))"
    using assms by (intro Max_insert) simp_all
  then show ?thesis by (simp add: max.commute)
qed

lemma running_peak_append:
  "running_peak (pre @ v # vs) (length pre) = Max (set (pre @ [v]))"
  by (simp add: running_peak_def)

lemma drawdown_at_prefix:
  assumes "i < length pre"
  shows "drawdown_at (pre @ vs) i = drawdown_at pre i"
  using assms by (simp add: drawdown_at_def running_peak_def nth_append)

lemma drawdown_loop_inv:
  assumes "pre \<noteq> []" and "0 < Max (set pre)"
  shows "drawdown_loop vs (Max (set pre)) (Max (set (map (drawdown_at pre) [0..<length pre]))) =
    Inr (max_drawdown_spec (pre @ vs))"
  using assms
proof (induction vs arbitrary: pre)
  case Nil
  then show ?case by (simp add: max_drawdown_spec_def)
next
  case (Cons v vs)
  let ?peak = "Max (set pre)"
  let ?pre' = "pre @ [v]"
  let ?m = "Max (set (map (drawdown_at pre) [0..<length pre]))"
  have peak': "(if v > ?peak then v else ?peak) = Max (set ?pre')"
    unfolding Max_snoc [OF Cons.prems(1)] by (simp add: max_def)
  have pos': "0 < Max (set ?pre')"
    unfolding Max_snoc [OF Cons.prems(1)] using Cons.prems(2) by (simp add: max_def)
  have dd: "(Max (set ?pre') - v) / Max (set ?pre') = drawdown_at ?pre' (length pre)"
    by (simp add: drawdown_at_def running_peak_def)
  have older: "map (drawdown_at ?pre') [0..<length pre] = map (drawdown_at pre) [0..<length pre]"
    by (simp add: drawdown_at_prefix)
  have ne: "map (drawdown_at pre) [0..<length pre] \<noteq> []"
    using Cons.prems(1) by simp
  have m': "(if drawdown_at ?pre' (length pre) > ?m then drawdown_at ?pre' (length pre) else ?m)
      = Max (set (map (drawdown_at ?pre') [0..<length ?pre']))"
    using Max_snoc [OF ne, of "drawdown_at ?pre' (length pre)"]
    by (simp add: older max_def)
  have "drawdown_loop (v # vs) ?peak ?m =
      drawdown_loop vs (Max (set ?pre')) (Max (set (map (drawdown_at ?pre') [0..<length ?pre'])))"
    using pos' by (simp only: drawdown_loop.simps Let_def peak' dd m') simp
  also have "\<dots> = Inr (max_drawdown_spec (?pre' @ vs))"
    by (rule Cons.IH) (simp, rule pos')
  finally show ?case by simp
qed

lemma drawdown_first_step:
  assumes "v0 \<noteq> 0"
  shows "drawdown_loop (v0 # rest) v0 0 = drawdown_loop rest v0 0"
  using assms by simp

lemma drawdown_loop_sorted:
  assumes "0 < peak" and "sorted (peak # vs)"
  shows "drawdown_loop vs peak 0 = Inr 0"
  using assms
proof (induction vs arbitrary: peak)
  case Nil
  then show ?case by simp
next
  case (Cons v vs)
  from Cons.prems have le: "peak \<le> v" and s: "sorted (v # vs)" by simp_all
  from le Cons.prems(1) have pos: "0 < v" by simp
  from le have "(if v > peak then v else peak) = v" by simp
  then have "drawdown_loop (v # vs) peak 0 = drawdown_loop vs v 0"
    using pos by (simp add: Let_def)
  also have "\<dots> = Inr 0" using pos s by (rule Cons.IH)
  finally show ?case .
qed

lemma max_drawdown_example: "max_drawdown_of example_curve = Inr (15000 / 110000)"
  by (simp add: max_drawdown_of_def example_curve_def)

lemma example_drawdowns:
  "map (drawdown_at example_curve) [0..<length example_curve] = [0, 0, 3 / 22, 1 / 22]"
proof -
  have u: "[0..<4] = [0, 1, 2, 3]" by (simp add: upt_rec)
  show ?thesis
    by (simp add: example_curve_def u drawdown_at_def running_peak_def)
qed

text \<open>
  C4, as the code has it. Over every equity curve whose first value is positive, the
  code returns the greatest drawdown over the curve, where the drawdown at a point is
  (peak - value) / peak for the running peak that starts at the first value; the result
  is 0 for a non-decreasing curve. The curve 100000, 110000, 95000, 105000 gives
  15000 / 110000.
\<close>

theorem max_drawdown_running_peak:
  assumes "curve \<noteq> []" and "0 < hd curve"
  shows "max_drawdown_of curve = Inr (max_drawdown_spec curve)
    \<and> (sorted curve \<longrightarrow> max_drawdown_of curve = Inr 0)
    \<and> max_drawdown_of example_curve = Inr (15000 / 110000)"
proof -
  from assms obtain v0 rest where c: "curve = v0 # rest" and v0: "0 < v0"
    by (cases curve) simp_all
  have start: "max_drawdown_of (v0 # rest) = drawdown_loop rest v0 0"
    using v0 by (simp add: max_drawdown_of_def)
  have "drawdown_loop rest (Max (set [v0])) (Max (set (map (drawdown_at [v0]) [0..<length [v0]])))
      = Inr (max_drawdown_spec ([v0] @ rest))"
    by (rule drawdown_loop_inv) (simp_all add: v0)
  moreover have "drawdown_at [v0] 0 = 0" by (simp add: drawdown_at_def running_peak_def)
  ultimately have 1: "max_drawdown_of curve = Inr (max_drawdown_spec curve)"
    by (simp add: start c)
  have 2: "sorted curve \<longrightarrow> max_drawdown_of curve = Inr 0"
    using drawdown_loop_sorted [OF v0, of rest] by (simp add: start c)
  from 1 2 max_drawdown_example show ?thesis by (intro conjI)
qed

theorem max_drawdown_running_peak_witness:
  "example_curve \<noteq> [] \<and> 0 < hd example_curve
   \<and> max_drawdown_of example_curve = Inr (max_drawdown_spec example_curve)
   \<and> max_drawdown_spec example_curve = 3 / 22
   \<and> map (drawdown_at example_curve) [0..<length example_curve] = [0, 0, 3 / 22, 1 / 22]"
proof -
  have a: "example_curve \<noteq> []" and b: "0 < hd example_curve"
    by (simp_all add: example_curve_def)
  have s: "max_drawdown_spec example_curve = 3 / 22"
    unfolding max_drawdown_spec_def example_drawdowns by simp
  from max_drawdown_running_peak [OF a b]
  have "max_drawdown_of example_curve = Inr (max_drawdown_spec example_curve)" by (rule conjunct1)
  with a b s example_drawdowns show ?thesis by (intro conjI)
qed

text \<open>
  C4 as stated fails on a curve that starts at 0: the first division by the peak raises
  ZeroDivisionError, so the non-decreasing curve 0, 0 has no result.
\<close>

theorem max_drawdown_zero_start:
  "max_drawdown_of [0, 0] = Inl ZeroDivisionError \<and> sorted [0 :: rat, 0]"
  by (simp add: max_drawdown_of_def)


end
